theory Spec2Isabelle
  imports Complex_Main
begin

section \<open>JavaScript values\<close>

text \<open>
  The script \<^verbatim>\<open>runlighthouse.js\<close> works on JavaScript values: flags parsed by minimist,
  environment variables, the configuration object and the parsed response. A number is
  a double; only whether it is zero or not-a-number matters to the script, so a finite
  double is kept as the rational it denotes (both zeros are \<open>Finite 0\<close>).
\<close>

datatype jsnum = NaN | PosInf | NegInf | Finite rat

datatype jsval =
    Undefined
  | Null
  | JBool bool
  | JNum jsnum
  | JStr string
  | JArr "jsval list"
  | JObj "(string \<times> jsval) list"

text \<open>ToBoolean: what \<^verbatim>\<open>!x\<close>, \<^verbatim>\<open>x || y\<close>, \<^verbatim>\<open>x ? a : b\<close> and \<^verbatim>\<open>if (x)\<close> test.\<close>

fun truthy_num :: "jsnum \<Rightarrow> bool" where
  "truthy_num NaN = False"
| "truthy_num PosInf = True"
| "truthy_num NegInf = True"
| "truthy_num (Finite q) = (q \<noteq> 0)"

fun truthy :: "jsval \<Rightarrow> bool" where
  "truthy Undefined = False"
| "truthy Null = False"
| "truthy (JBool b) = b"
| "truthy (JNum n) = truthy_num n"
| "truthy (JStr s) = (s \<noteq> [])"
| "truthy (JArr xs) = True"
| "truthy (JObj kvs) = True"

text \<open>\<^verbatim>\<open>a || b\<close>: the first operand when it is truthy, the second otherwise.\<close>

definition or_js :: "jsval \<Rightarrow> jsval \<Rightarrow> jsval" where
  "or_js a b = (if truthy a then a else b)"

text \<open>
  Conversion to a string, as a template literal and \<^verbatim>\<open>Number\<close> do it, can throw: an
  object converts through its \<^verbatim>\<open>toString\<close>, and an own property of that name that is not
  a function (no value here is a function) hides the inherited one, so that nothing
  returns a primitive and the engine throws a \<^verbatim>\<open>TypeError\<close>. An object with no such
  property has the string form \<^verbatim>\<open>[object Object]\<close>; an array joins the string forms of
  its elements. \<^verbatim>\<open>can_string v\<close> says that the conversion of \<open>v\<close> returns.
\<close>

fun can_string :: "jsval \<Rightarrow> bool" where
  "can_string (JArr xs) = list_all can_string xs"
| "can_string (JObj kvs) = (''toString'' \<notin> set (map fst kvs))"
| "can_string v = True"

datatype js_error = FetchError string | TypeError string

definition no_primitive :: js_error where
  "no_primitive = TypeError ''Cannot convert object to primitive value''"

text \<open>
  What the engine reads in a text is not part of the script: \<^verbatim>\<open>Number\<close> applied to a
  string (or to an array, through its string form) and \<^verbatim>\<open>parseInt(s, 10)\<close> are parameters
  of the model, so every theorem holds for whatever they compute.
\<close>

record builtins =
  text_to_number :: "jsval \<Rightarrow> jsnum"
  parse_int10 :: "string \<Rightarrow> jsnum"

text \<open>
  \<^verbatim>\<open>Number(v)\<close>: fixed by the language on undefined, null, booleans and numbers. An
  array or object is converted to a string first, which throws or returns; the text
  \<^verbatim>\<open>[object Object]\<close> of an object is not a number.
\<close>

fun Number :: "builtins \<Rightarrow> jsval \<Rightarrow> js_error + jsnum" where
  "Number B Undefined = Inr NaN"
| "Number B Null = Inr (Finite 0)"
| "Number B (JBool b) = Inr (if b then Finite 1 else Finite 0)"
| "Number B (JNum n) = Inr n"
| "Number B (JStr s) = Inr (text_to_number B (JStr s))"
| "Number B (JArr xs) =
     (if can_string (JArr xs) then Inr (text_to_number B (JArr xs)) else Inl no_primitive)"
| "Number B (JObj kvs) = (if can_string (JObj kvs) then Inr NaN else Inl no_primitive)"

text \<open>
  \<^verbatim>\<open>parseInt(v, 10)\<close> of an environment variable: an unset variable is \<^verbatim>\<open>undefined\<close>,
  whose string form has no digit.
\<close>

fun parseInt :: "builtins \<Rightarrow> string option \<Rightarrow> jsnum" where
  "parseInt B None = NaN"
| "parseInt B (Some s) = parse_int10 B s"

text \<open>
  Reading a property: a \<^verbatim>\<open>TypeError\<close> on undefined and null, the stored value on an
  object, \<^verbatim>\<open>undefined\<close> when absent. The script reads only \<^verbatim>\<open>data\<close>, \<^verbatim>\<open>target_url\<close> and
  \<^verbatim>\<open>score\<close>, which no boolean, number, string or array has.
\<close>

fun get :: "jsval \<Rightarrow> string \<Rightarrow> js_error + jsval" where
  "get Undefined k = Inl (TypeError k)"
| "get Null k = Inl (TypeError k)"
| "get (JObj kvs) k = Inr (case map_of kvs k of None \<Rightarrow> Undefined | Some v \<Rightarrow> v)"
| "get v k = Inr Undefined"

text \<open>\<^verbatim>\<open>obj[k] = v\<close> on an object kept as its properties in insertion order.\<close>

fun put :: "string \<Rightarrow> jsval \<Rightarrow> (string \<times> jsval) list \<Rightarrow> (string \<times> jsval) list" where
  "put k v [] = [(k, v)]"
| "put k v (p # ps) = (if fst p = k then (k, v) # ps else p # put k v ps)"

text \<open>\<^verbatim>\<open>Object.assign(target, source)\<close>: every property of the source is set on the target.\<close>

fun Object_assign :: "(string \<times> jsval) list \<Rightarrow> (string \<times> jsval) list \<Rightarrow> (string \<times> jsval) list" where
  "Object_assign target [] = target"
| "Object_assign target (p # ps) = Object_assign (put (fst p) (snd p) target) ps"

text \<open>\<^verbatim>\<open>s.split(c)\<close> and \<^verbatim>\<open>xs[i]\<close> on the array of strings it returns.\<close>

fun split :: "char \<Rightarrow> string \<Rightarrow> string list" where
  "split c [] = [[]]"
| "split c (x # xs) =
     (if x = c then [] # split c xs
      else (case split c xs of [] \<Rightarrow> [[x]] | y # ys \<Rightarrow> (x # y) # ys))"

definition index :: "string list \<Rightarrow> nat \<Rightarrow> jsval" where
  "index xs i = (if i < length xs then JStr (xs ! i) else Undefined)"

text \<open>The string form of an array of strings: its elements joined by commas.\<close>

fun commas :: "string list \<Rightarrow> string" where
  "commas [] = []"
| "commas [x] = x"
| "commas (x # y # ys) = x @ '','' @ commas (y # ys)"

section \<open>Inputs and effects\<close>

text \<open>
  \<^verbatim>\<open>process.env\<close> maps names to strings. \<^verbatim>\<open>process_env env k\<close> is the JavaScript value of
  \<^verbatim>\<open>process.env.k\<close>.
\<close>

type_synonym env = "string \<Rightarrow> string option"

definition process_env :: "env \<Rightarrow> string \<Rightarrow> jsval" where
  "process_env env k = (case env k of None \<Rightarrow> Undefined | Some s \<Rightarrow> JStr s)"

text \<open>
  What minimist returns for the options the script passes it: \<^verbatim>\<open>comment\<close>, \<^verbatim>\<open>help\<close> and
  \<^verbatim>\<open>pr\<close> are declared boolean, so they are booleans (defaults \<^verbatim>\<open>true\<close>, \<^verbatim>\<open>false\<close>, \<^verbatim>\<open>true\<close>);
  \<^verbatim>\<open>score\<close> and \<^verbatim>\<open>runner\<close> are whatever was given (\<^verbatim>\<open>undefined\<close> when absent); \<^verbatim>\<open>_\<close> holds
  the positional arguments.
\<close>

record argv =
  arg_positional :: "jsval list"
  arg_help :: bool
  arg_pr :: bool
  arg_comment :: bool
  arg_score :: jsval
  arg_runner :: jsval

text \<open>\<^verbatim>\<open>argv._[0]\<close>.\<close>

definition first_positional :: "argv \<Rightarrow> jsval" where
  "first_positional a = (case arg_positional a of [] \<Rightarrow> Undefined | v # vs \<Rightarrow> v)"

text \<open>
  The body handed to \<^verbatim>\<open>fetch\<close> is \<^verbatim>\<open>JSON.stringify\<close> of an object; the text it renders to
  is the engine's business, so the body is kept as the object that is serialised.
\<close>

datatype body = JSON_stringify jsval

record request =
  url :: string
  req_method :: string
  req_body :: body
  headers :: "(string \<times> jsval) list"

text \<open>
  A line of \<^verbatim>\<open>console.log\<close> is its pieces in order, a piece being literal text, a value
  or a caught error. What the process does that can be seen from outside is the list of
  its lines and requests, the error that ends it when one is thrown and not caught
  (the engine reports it and exits with code 1), and its exit code.
\<close>

datatype piece = S string | V jsval | E js_error

datatype event = Log "piece list" | Fetch request | Uncaught js_error

fun fetches :: "event list \<Rightarrow> request list" where
  "fetches [] = []"
| "fetches (Log l # es) = fetches es"
| "fetches (Fetch r # es) = r # fetches es"
| "fetches (Uncaught e # es) = fetches es"

text \<open>
  The remote service, as the script sees it: \<^verbatim>\<open>fetch\<close> rejects (the transport failed),
  or it resolves and \<^verbatim>\<open>resp.json()\<close> rejects (the body is not JSON) or resolves to the
  parsed value.
\<close>

datatype reply = Rejected string | Unparseable string | Parsed jsval

section \<open>The script\<close>

definition RUNNERS :: "(string \<times> string) list" where
  "RUNNERS = [(''chrome'', ''chrome''), (''wpt'', ''wpt'')]"

definition RUNNERS_chrome :: string where
  "RUNNERS_chrome = the (map_of RUNNERS ''chrome'')"

definition RUNNERS_wpt :: string where
  "RUNNERS_wpt = the (map_of RUNNERS ''wpt'')"

definition Object_keys :: "(string \<times> 'v) list \<Rightarrow> string list" where
  "Object_keys obj = map fst obj"

text \<open>\<^verbatim>\<open>process.env.CI_HOST || '...'\<close>: a string either way.\<close>

definition CI_HOST :: "env \<Rightarrow> string" where
  "CI_HOST env =
     (case env ''CI_HOST'' of
        None \<Rightarrow> ''https://lighthouse-ci.appspot.com''
      | Some s \<Rightarrow> if s \<noteq> [] then s else ''https://lighthouse-ci.appspot.com'')"

definition API_KEY :: "env \<Rightarrow> jsval" where
  "API_KEY env = or_js (process_env env ''LIGHTHOUSE_API_KEY'') (process_env env ''API_KEY'')"

definition deprecation_warning :: "env \<Rightarrow> event list" where
  "deprecation_warning env =
     (if truthy (process_env env ''API_KEY'')
      then [Log [S ''Warning: The environment variable API_KEY is deprecated. Please use LIGHTHOUSE_API_KEY instead.'']]
      else [])"

definition usage :: string where
  \<open>usage =
     ''Usage:\<newline>'' @
     ''runLighthouse.js [--score=<score>] [--no-comment] [--pr=<boolean>] [--runner='' @
       commas (Object_keys RUNNERS) @ ''] <url>\<newline>'' @
     ''\<newline>'' @
     ''Options:\<newline>'' @
     ''  --score      Minimum score for the pull request to be considered "passing".\<newline>'' @
     ''               If omitted, merging the PR will be allowed no matter what the score. [Number]\<newline>'' @
     ''\<newline>'' @
     ''  --no-comment Doesn't post a comment to the PR issue summarizing the Lighthouse results. [Boolean]\<newline>'' @
     ''\<newline>'' @
     ''  --pr         By default Lighthouse will only run on PR's. To enable Lighthouse on all event\<newline>'' @
     ''               types set to false to run Lighthouse on all activity [Boolean]\<newline>'' @
     ''\<newline>'' @
     ''  --runner     Selects Lighthouse running on Chrome or WebPageTest. [--runner='' @
       commas (Object_keys RUNNERS) @ '']\<newline>'' @
     ''\<newline>'' @
     ''  --help       Prints help.\<newline>'' @
     ''\<newline>'' @
     ''Examples:\<newline>'' @
     ''\<newline>'' @
     ''  Runs Lighthouse and posts a summary of the results.\<newline>'' @
     ''    runLighthouse.js https://example.com\<newline>'' @
     ''\<newline>'' @
     ''  Runs Lighthouse and posts a summary of the results on every test run.\<newline>'' @
     ''    runLighthouse.js --pr=false https://example.com\<newline>'' @
     ''\<newline>'' @
     ''  Fails the PR if the score drops below 93. Posts the summary comment.\<newline>'' @
     ''    runLighthouse.js --score=93 https://example.com\<newline>'' @
     ''\<newline>'' @
     ''  Runs Lighthouse on WebPageTest. Fails the PR if the score drops below 93.\<newline>'' @
     ''    runLighthouse.js --score=93 --runner=wpt --no-comment https://example.com''\<close>

text \<open>
  \<^verbatim>\<open>printUsageAndExit\<close> prints the usage and calls \<^verbatim>\<open>process.exit(1)\<close>: nothing after it
  runs. A function that may end the process returns what was printed so far and either
  the exit code (\<open>Inl\<close>) or its value (\<open>Inr\<close>).
\<close>

definition printUsageAndExit :: "event list \<Rightarrow> event list \<times> (nat + 'a)" where
  "printUsageAndExit out = (out @ [Log [S usage]], Inl 1)"

text \<open>An error thrown outside any handler ends the process at once, with exit code 1.\<close>

definition uncaught :: "js_error \<Rightarrow> event list \<times> (nat + 'a)" where
  "uncaught err = ([Uncaught err], Inl 1)"

record prinfo =
  number :: jsval
  sha :: jsval

record repoinfo =
  owner :: jsval
  name :: jsval

record config =
  testUrl :: jsval
  runLighthouse :: jsval
  addComment :: bool
  minPassScore :: jsnum
  runner :: jsval
  pr :: prinfo
  repo :: repoinfo

text \<open>The configuration as the object it is, its properties in the order they are set.\<close>

definition config_object :: "config \<Rightarrow> (string \<times> jsval) list" where
  "config_object c =
     [(''testUrl'', testUrl c),
      (''runLighthouse'', runLighthouse c),
      (''addComment'', JBool (addComment c)),
      (''minPassScore'', JNum (minPassScore c)),
      (''runner'', runner c),
      (''pr'', JObj [(''number'', number (pr c)), (''sha'', sha (pr c))]),
      (''repo'', JObj [(''owner'', owner (repo c)), (''name'', name (repo c))])]"

definition getPrInfo :: "builtins \<Rightarrow> env \<Rightarrow> prinfo" where
  "getPrInfo B env =
     (let pr0 = \<lparr>number = Null, sha = Null\<rparr>;
          pr1 = (if truthy (process_env env ''TRAVIS'')
                 then pr0\<lparr>number := JNum (parseInt B (env ''TRAVIS_PULL_REQUEST'')),
                          sha := process_env env ''TRAVIS_PULL_REQUEST_SHA''\<rparr>
                 else pr0);
          pr2 = (if truthy (process_env env ''CIRCLECI'')
                 then pr1\<lparr>number := JNum (parseInt B (env ''CIRCLE_PR_NUMBER'')),
                          sha := process_env env ''CIRCLE_SHA1''\<rparr>
                 else pr1)
      in pr2)"

text \<open>
  \<^verbatim>\<open>!argv.pr || (argv.pr && (TRAVIS_EVENT_TYPE === 'pull_request' || CIRCLE_PULL_REQUEST))\<close>:
  the value is \<^verbatim>\<open>true\<close>, or what \<^verbatim>\<open>process.env.CIRCLE_PULL_REQUEST\<close> is.
\<close>

definition run_gate :: "argv \<Rightarrow> env \<Rightarrow> jsval" where
  "run_gate a env =
     or_js (JBool (\<not> arg_pr a))
       (if arg_pr a
        then or_js (JBool (env ''TRAVIS_EVENT_TYPE'' = Some ''pull_request''))
               (process_env env ''CIRCLE_PULL_REQUEST'')
        else JBool False)"

definition repoSlug :: "env \<Rightarrow> jsval" where
  "repoSlug env =
     or_js (process_env env ''TRAVIS_PULL_REQUEST_SLUG'')
       (or_js (process_env env ''CIRCLE_PULL_REQUEST'')
          (process_env env ''CIRCLE_REPOSITORY_URL''))"

text \<open>\<^verbatim>\<open>repoSlug ? repoSlug.split('/')[i] : null\<close>; a truthy slug is a string.\<close>

definition slug_part :: "jsval \<Rightarrow> nat \<Rightarrow> jsval" where
  "slug_part slug i =
     (if truthy slug
      then (case slug of JStr s \<Rightarrow> index (split (CHR ''/'') s) i | _ \<Rightarrow> Undefined)
      else Null)"

text \<open>
  \<^verbatim>\<open>getConfig\<close>. Two of its steps convert a flag and can throw, outside any handler:
  \<^verbatim>\<open>Number(argv.score)\<close>, and the template literal of the unknown-runner line, which
  converts the runner to a string before anything is printed.
\<close>

definition getConfig :: "builtins \<Rightarrow> argv \<Rightarrow> env \<Rightarrow> event list \<times> (nat + config)" where
  "getConfig B a env =
     (if arg_help a then printUsageAndExit []
      else
        let url = first_positional a in
        if \<not> truthy url
        then printUsageAndExit [Log [S ''Please provide a url to test.'']]
        else
          (case Number B (arg_score a) of
             Inl err \<Rightarrow> uncaught err
           | Inr score \<Rightarrow>
               if \<not> arg_comment a \<and> \<not> truthy (JNum score)
               then printUsageAndExit [Log [S ''Please provide a --score when using --no-comment.'']]
               else
                 let r = or_js (arg_runner a) (JStr RUNNERS_chrome);
                     possibleRunners = Object_keys RUNNERS in
                 if r \<notin> set (map JStr possibleRunners)
                 then (if can_string r
                       then printUsageAndExit
                              [Log [S ''Unknown runner \"'', V r, S ''\". Options: '',
                                    S (commas possibleRunners)]]
                       else uncaught no_primitive)
                 else
                   let slug = repoSlug env;
                       c = \<lparr>testUrl = url,
                            runLighthouse = run_gate a env,
                            addComment = arg_comment a,
                            minPassScore = score,
                            runner = r,
                            pr = getPrInfo B env,
                            repo = \<lparr>owner = slug_part slug 0, name = slug_part slug 1\<rparr>\<rparr>
                   in ([Log [S ''Using runner: '', V r],
                        Log [S ''ENV:'', V (process_env env ''CIRCLE_PROJECT_USERNAME''),
                             V (process_env env ''CIRCLE_PROJECT_REPONAME'')],
                        Log [S ''Slug:'', V (owner (repo c)), V (name (repo c))]],
                       Inr c)))"

text \<open>
  The \<^verbatim>\<open>.then(json => ...)\<close> callback of \<^verbatim>\<open>run\<close>: the line it prints, or the error it
  throws when a property is read from undefined or null, or when the template literal
  of the wpt line converts a \<^verbatim>\<open>target_url\<close> that has no string form. The score is passed
  to \<^verbatim>\<open>console.log\<close> as an argument of its own, which is printed without conversion.
\<close>

definition report :: "config \<Rightarrow> jsval \<Rightarrow> js_error + event" where
  "report c json =
     (if runner c = JStr RUNNERS_wpt
      then (case get json ''data'' of
              Inl e \<Rightarrow> Inl e
            | Inr d \<Rightarrow>
                (case get d ''target_url'' of
                   Inl e \<Rightarrow> Inl e
                 | Inr u \<Rightarrow>
                     if can_string u
                     then Inr (Log [S ''Started Lighthouse run on WebPageTest: '', V u])
                     else Inl no_primitive))
      else (case get json ''score'' of
              Inl e \<Rightarrow> Inl e
            | Inr s \<Rightarrow> Inr (Log [S ''Lighthouse CI score:'', V s])))"

text \<open>The \<^verbatim>\<open>.catch\<close> callback: a line, then \<^verbatim>\<open>process.exit(1)\<close>.\<close>

definition failed :: "js_error \<Rightarrow> event list \<times> nat" where
  "failed err = ([Log [S ''Lighthouse CI failed'', E err]], 1)"

text \<open>The request \<^verbatim>\<open>run\<close> builds: the \<^verbatim>\<open>switch\<close> on the runner, then the call of \<^verbatim>\<open>fetch\<close>.\<close>

definition build_request :: "env \<Rightarrow> config \<Rightarrow> request" where
  "build_request env c =
     (let (endpoint, body) =
            (if runner c = JStr RUNNERS_wpt
             then (CI_HOST env @ ''/run_on_wpt'', JSON_stringify (JObj (config_object c)))
             else (CI_HOST env @ ''/run_on_chrome'',
                   JSON_stringify (JObj (Object_assign [(''format'', JStr ''json'')] (config_object c)))))
      in \<lparr>url = endpoint,
          req_method = ''POST'',
          req_body = body,
          headers = [(''Content-Type'', JStr ''application/json''), (''X-API-KEY'', API_KEY env)]\<rparr>)"

text \<open>
  \<^verbatim>\<open>run\<close> with the answer of the service \<open>net\<close>: the events, and the exit code of the
  process, which is 0 when nothing calls \<^verbatim>\<open>process.exit\<close>.
\<close>

definition run :: "env \<Rightarrow> (request \<Rightarrow> reply) \<Rightarrow> config \<Rightarrow> event list \<times> nat" where
  "run env net c =
     (let req = build_request env c;
          (out, code) =
            (case net req of
               Rejected msg \<Rightarrow> failed (FetchError msg)
             | Unparseable msg \<Rightarrow> failed (FetchError msg)
             | Parsed json \<Rightarrow>
                 (case report c json of
                    Inl err \<Rightarrow> failed err
                  | Inr line \<Rightarrow> ([line], 0)))
      in (Fetch req # out, code))"

text \<open>The whole script, top to bottom: what it prints and requests, and its exit code.\<close>

definition main :: "builtins \<Rightarrow> argv \<Rightarrow> env \<Rightarrow> (request \<Rightarrow> reply) \<Rightarrow> event list \<times> nat" where
  "main B a env net =
     (let warned = deprecation_warning env in
      case getConfig B a env of
        (out, Inl code) \<Rightarrow> (warned @ out, code)
      | (out, Inr c) \<Rightarrow>
          if truthy (runLighthouse c)
          then (let (evs, code) = run env net c in (warned @ out @ evs, code))
          else (warned @ out @
                [Log [S ''Lighthouse is not run for non-PR commits by default. Run with --pr=false to enable for all builds.'']],
                0))"

section \<open>Examples\<close>

text \<open>
  Concrete inputs for the theorems below: an engine that knows the few strings used here,
  the command line \<^verbatim>\<open>runLighthouse.js https://example.com\<close> and variants of it,
  environments of a build outside any CI, of a Travis pull request and of a build that
  sets the variables of both providers, and answers of the service.
\<close>

definition example_text_to_number :: "jsval \<Rightarrow> jsnum" where
  "example_text_to_number v = (if v = JStr [] then Finite 0 else NaN)"

definition example_parse_int10 :: "string \<Rightarrow> jsnum" where
  "example_parse_int10 s =
     (if s = ''7'' then Finite 7 else if s = ''12'' then Finite 12 else NaN)"

definition example_builtins :: builtins where
  "example_builtins =
     \<lparr>text_to_number = example_text_to_number, parse_int10 = example_parse_int10\<rparr>"

definition example_argv :: argv where
  "example_argv =
     \<lparr>arg_positional = [JStr ''https://example.com''],
      arg_help = False,
      arg_pr = True,
      arg_comment = True,
      arg_score = Undefined,
      arg_runner = Undefined\<rparr>"

definition no_ci_env :: env where
  "no_ci_env = Map.empty"

definition travis_pr_env :: env where
  "travis_pr_env =
     [''TRAVIS'' \<mapsto> ''true'',
      ''TRAVIS_EVENT_TYPE'' \<mapsto> ''pull_request'',
      ''TRAVIS_PULL_REQUEST'' \<mapsto> ''7'',
      ''TRAVIS_PULL_REQUEST_SHA'' \<mapsto> ''abc'',
      ''TRAVIS_PULL_REQUEST_SLUG'' \<mapsto> ''owner/repo'',
      ''LIGHTHOUSE_API_KEY'' \<mapsto> ''secret'']"

definition both_ci_env :: env where
  "both_ci_env =
     [''TRAVIS'' \<mapsto> ''true'',
      ''TRAVIS_PULL_REQUEST'' \<mapsto> ''7'',
      ''TRAVIS_PULL_REQUEST_SHA'' \<mapsto> ''abc'',
      ''CIRCLECI'' \<mapsto> ''true'',
      ''CIRCLE_PR_NUMBER'' \<mapsto> ''12'',
      ''CIRCLE_SHA1'' \<mapsto> ''def'']"

definition skipped_config :: config where
  "skipped_config =
     \<lparr>testUrl = JStr ''https://example.com'',
      runLighthouse = Undefined,
      addComment = True,
      minPassScore = NaN,
      runner = JStr ''chrome'',
      pr = \<lparr>number = Null, sha = Null\<rparr>,
      repo = \<lparr>owner = Null, name = Null\<rparr>\<rparr>"

definition example_config :: config where
  "example_config =
     \<lparr>testUrl = JStr ''https://example.com'',
      runLighthouse = JBool True,
      addComment = True,
      minPassScore = Finite 93,
      runner = JStr ''chrome'',
      pr = \<lparr>number = JNum (Finite 7), sha = JStr ''abc''\<rparr>,
      repo = \<lparr>owner = JStr ''owner'', name = JStr ''repo''\<rparr>\<rparr>"

definition service_down :: "request \<Rightarrow> reply" where
  "service_down req = Rejected ''ECONNREFUSED''"

definition service_html :: "request \<Rightarrow> reply" where
  "service_html req = Unparseable ''Unexpected token <''"

definition service_null :: "request \<Rightarrow> reply" where
  "service_null req = Parsed Null"

definition service_empty :: "request \<Rightarrow> reply" where
  "service_empty req = Parsed (JObj [])"

definition service_score :: "request \<Rightarrow> reply" where
  "service_score req = Parsed (JObj [(''score'', JNum (Finite 50))])"

definition scored_argv :: argv where
  "scored_argv = example_argv\<lparr>arg_score := JNum (Finite 93)\<rparr>"

definition wpt_argv :: argv where
  "wpt_argv = scored_argv\<lparr>arg_runner := JStr ''wpt''\<rparr>"

definition wpt_config :: config where
  "wpt_config = example_config\<lparr>runner := JStr ''wpt''\<rparr>"

text \<open>What minimist builds for the runner from \<^verbatim>\<open>--runner.toString=1\<close>.\<close>

definition runner_without_string :: jsval where
  "runner_without_string = JObj [(''toString'', JNum (Finite 1))]"

section \<open>Facts about the script\<close>

lemma fetches_append: "fetches (xs @ ys) = fetches xs @ fetches ys"
  by (induction xs rule: fetches.induct) simp_all

lemma fetches_deprecation_warning: "fetches (deprecation_warning env) = []"
  by (simp add: deprecation_warning_def)

lemma fetches_printUsageAndExit:
  "fetches out = [] \<Longrightarrow> fetches (fst (printUsageAndExit out)) = []"
  by (simp add: printUsageAndExit_def fetches_append)

lemma fetches_getConfig: "fetches (fst (getConfig B a env)) = []"
  by (simp add: getConfig_def Let_def fetches_printUsageAndExit uncaught_def split: sum.splits)

lemma getConfig_exit_code: "getConfig B a env = (out, Inl code) \<Longrightarrow> code = 1"
  by (auto simp: getConfig_def Let_def printUsageAndExit_def uncaught_def
      split: if_splits sum.splits)

lemma RUNNERS_chrome_eq: "RUNNERS_chrome = ''chrome''"
  by (simp add: RUNNERS_chrome_def RUNNERS_def)

lemma RUNNERS_wpt_eq: "RUNNERS_wpt = ''wpt''"
  by (simp add: RUNNERS_wpt_def RUNNERS_def)

lemma possible_runners:
  "r \<in> set (map JStr (Object_keys RUNNERS)) \<longleftrightarrow> r = JStr ''chrome'' \<or> r = JStr ''wpt''"
  by (auto simp: RUNNERS_def Object_keys_def)

lemma commas_runners: "commas (Object_keys RUNNERS) = ''chrome,wpt''"
  by (simp add: RUNNERS_def Object_keys_def)

text \<open>What is known of the inputs and of the configuration when \<^verbatim>\<open>getConfig\<close> returns.\<close>

lemma getConfig_returns:
  assumes "getConfig B a env = (out, Inr c)"
  shows "\<not> arg_help a"
    and "truthy (first_positional a)"
    and "arg_comment a \<or> truthy_num (minPassScore c)"
    and "testUrl c = first_positional a"
    and "runLighthouse c = run_gate a env"
    and "addComment c = arg_comment a"
    and "Number B (arg_score a) = Inr (minPassScore c)"
    and "runner c = or_js (arg_runner a) (JStr ''chrome'')"
    and "runner c = JStr ''chrome'' \<or> runner c = JStr ''wpt''"
    and "pr c = getPrInfo B env"
    and "repo c = \<lparr>owner = slug_part (repoSlug env) 0, name = slug_part (repoSlug env) 1\<rparr>"
  using assms
  by (auto simp: getConfig_def Let_def printUsageAndExit_def uncaught_def RUNNERS_def
      RUNNERS_chrome_def Object_keys_def split: if_splits sum.splits)

text \<open>\<^verbatim>\<open>getConfig\<close> on a runner flag that is given and is not one of the two runners.\<close>

lemma getConfig_unknown_runner:
  assumes "truthy (arg_runner a) \<and> arg_runner a \<noteq> JStr ''chrome'' \<and> arg_runner a \<noteq> JStr ''wpt''"
  shows "getConfig B a env =
     (if arg_help a then printUsageAndExit []
      else if \<not> truthy (first_positional a)
      then printUsageAndExit [Log [S ''Please provide a url to test.'']]
      else (case Number B (arg_score a) of
              Inl err \<Rightarrow> uncaught err
            | Inr score \<Rightarrow>
                if \<not> arg_comment a \<and> \<not> truthy_num score
                then printUsageAndExit [Log [S ''Please provide a --score when using --no-comment.'']]
                else if can_string (arg_runner a)
                then printUsageAndExit
                       [Log [S ''Unknown runner \"'', V (arg_runner a), S ''\". Options: '',
                             S ''chrome,wpt'']]
                else uncaught no_primitive))"
proof -
  have r: "or_js (arg_runner a) (JStr RUNNERS_chrome) = arg_runner a"
    using assms by (simp add: or_js_def)
  have "arg_runner a \<notin> set (map JStr (Object_keys RUNNERS))"
    unfolding possible_runners using assms by simp
  then show ?thesis
    by (simp add: getConfig_def Let_def r commas_runners split: sum.splits)
qed

lemma returned: "snd r = Inr c \<Longrightarrow> r = (fst r, Inr c)"
  by (cases r) simp

lemma main_usage_error:
  "getConfig B a env = (out, Inl code) \<Longrightarrow> main B a env net = (deprecation_warning env @ out, code)"
  by (simp add: main_def)

lemma main_skipped:
  "getConfig B a env = (out, Inr c) \<Longrightarrow> \<not> truthy (runLighthouse c) \<Longrightarrow>
   main B a env net =
     (deprecation_warning env @ out @
      [Log [S ''Lighthouse is not run for non-PR commits by default. Run with --pr=false to enable for all builds.'']],
      0)"
  by (simp add: main_def)

lemma main_dispatched:
  "getConfig B a env = (out, Inr c) \<Longrightarrow> truthy (runLighthouse c) \<Longrightarrow>
   main B a env net =
     (deprecation_warning env @ out @ fst (run env net c), snd (run env net c))"
  by (simp add: main_def split: prod.splits)

lemma run_gate_closed:
  "arg_pr a \<Longrightarrow> env ''TRAVIS_EVENT_TYPE'' \<noteq> Some ''pull_request'' \<Longrightarrow>
   env ''CIRCLE_PULL_REQUEST'' = None \<Longrightarrow> run_gate a env = Undefined"
  by (simp add: run_gate_def or_js_def process_env_def)

lemma run_rejected:
  "net (build_request env c) = Rejected msg \<Longrightarrow>
   run env net c =
     ([Fetch (build_request env c), Log [S ''Lighthouse CI failed'', E (FetchError msg)]], 1)"
  by (simp add: run_def failed_def)

lemma run_unparseable:
  "net (build_request env c) = Unparseable msg \<Longrightarrow>
   run env net c =
     ([Fetch (build_request env c), Log [S ''Lighthouse CI failed'', E (FetchError msg)]], 1)"
  by (simp add: run_def failed_def)

lemma run_reported:
  "net (build_request env c) = Parsed json \<Longrightarrow> report c json = Inr line \<Longrightarrow>
   run env net c = ([Fetch (build_request env c), line], 0)"
  by (simp add: run_def)

lemma run_threw:
  "net (build_request env c) = Parsed json \<Longrightarrow> report c json = Inl err \<Longrightarrow>
   run env net c =
     ([Fetch (build_request env c), Log [S ''Lighthouse CI failed'', E err]], 1)"
  by (simp add: run_def failed_def)

lemma report_chrome:
  "runner c = JStr ''chrome'' \<Longrightarrow> json \<noteq> Undefined \<Longrightarrow> json \<noteq> Null \<Longrightarrow>
   \<exists>v. get json ''score'' = Inr v \<and> report c json = Inr (Log [S ''Lighthouse CI score:'', V v])"
  by (cases json) (simp_all add: report_def RUNNERS_wpt_eq)

lemma report_is_log: "report c json = Inr line \<Longrightarrow> fetches [line] = []"
  by (auto simp: report_def split: if_splits sum.splits)

lemma fetches_run: "fetches (fst (run env net c)) = [build_request env c]"
  by (auto simp: run_def failed_def Let_def split: reply.splits sum.splits dest: report_is_log)

text \<open>The examples, evaluated.\<close>

lemma skipped_config_resolved:
  "getConfig example_builtins example_argv no_ci_env =
     (fst (getConfig example_builtins example_argv no_ci_env), Inr skipped_config)"
  by (rule returned) code_simp

lemma example_config_resolved:
  "getConfig example_builtins scored_argv travis_pr_env =
     (fst (getConfig example_builtins scored_argv travis_pr_env), Inr example_config)"
  by (rule returned) code_simp

lemma wpt_config_resolved:
  "getConfig example_builtins wpt_argv travis_pr_env =
     (fst (getConfig example_builtins wpt_argv travis_pr_env), Inr wpt_config)"
  by (rule returned) code_simp

section \<open>The claims\<close>

text \<open>
  C1. When the \<^verbatim>\<open>pr\<close> flag is true and no variable says the build is a pull request
  (\<^verbatim>\<open>TRAVIS_EVENT_TYPE\<close> is not \<^verbatim>\<open>pull_request\<close>, \<^verbatim>\<open>CIRCLE_PULL_REQUEST\<close> is unset), the
  expression stored in \<^verbatim>\<open>runLighthouse\<close> is falsy (it is \<^verbatim>\<open>undefined\<close>) and the script makes
  no request, whatever else it is given; and in every configuration that resolution
  yields \<^verbatim>\<open>runLighthouse\<close> is falsy, the script prints that the run is skipped, and the
  exit code is 0.
\<close>

theorem C1_no_pull_request_skips:
  assumes "arg_pr a"
    and "env ''TRAVIS_EVENT_TYPE'' \<noteq> Some ''pull_request''"
    and "env ''CIRCLE_PULL_REQUEST'' = None"
  shows "\<not> truthy (run_gate a env) \<and>
         fetches (fst (main B a env net)) = [] \<and>
         (\<forall>out c. getConfig B a env = (out, Inr c) \<longrightarrow>
            \<not> truthy (runLighthouse c) \<and>
            main B a env net =
              (deprecation_warning env @ out @
               [Log [S ''Lighthouse is not run for non-PR commits by default. Run with --pr=false to enable for all builds.'']],
               0))"
proof -
  have gate: "run_gate a env = Undefined"
    using assms by (rule run_gate_closed)
  have skip: "\<not> truthy (runLighthouse c)" if "getConfig B a env = (out, Inr c)" for out c
    using getConfig_returns(5) [OF that] gate by simp
  have quiet: "fetches (fst (main B a env net)) = []"
  proof (cases "getConfig B a env")
    case (Pair out res)
    have out: "fetches out = []"
      using fetches_getConfig [of B a env] Pair by simp
    show ?thesis
    proof (cases res)
      case (Inl code)
      with Pair out show ?thesis
        by (simp add: main_usage_error fetches_append fetches_deprecation_warning)
    next
      case (Inr c)
      with Pair have g: "getConfig B a env = (out, Inr c)" by simp
      show ?thesis
        using main_skipped [OF g skip [OF g]] out
        by (simp add: fetches_append fetches_deprecation_warning)
    qed
  qed
  show ?thesis
    using gate quiet skip main_skipped by auto
qed

theorem C1_no_pull_request_skips_witness:
  "arg_pr example_argv \<and>
   no_ci_env ''TRAVIS_EVENT_TYPE'' \<noteq> Some ''pull_request'' \<and>
   no_ci_env ''CIRCLE_PULL_REQUEST'' = None \<and>
   \<not> truthy (run_gate example_argv no_ci_env) \<and>
   snd (getConfig example_builtins example_argv no_ci_env) = Inr skipped_config \<and>
   \<not> truthy (runLighthouse skipped_config) \<and>
   fetches (fst (main example_builtins example_argv no_ci_env service_score)) = [] \<and>
   main example_builtins example_argv no_ci_env service_score =
     (deprecation_warning no_ci_env @ fst (getConfig example_builtins example_argv no_ci_env) @
      [Log [S ''Lighthouse is not run for non-PR commits by default. Run with --pr=false to enable for all builds.'']],
      0)"
proof -
  have h1: "arg_pr example_argv"
    by (simp add: example_argv_def)
  have h2: "no_ci_env ''TRAVIS_EVENT_TYPE'' \<noteq> Some ''pull_request''"
    and h3: "no_ci_env ''CIRCLE_PULL_REQUEST'' = None"
    by (simp_all add: no_ci_env_def)
  note g = skipped_config_resolved
  note t = C1_no_pull_request_skips [OF h1 h2 h3, of example_builtins service_score]
  from g have "snd (getConfig example_builtins example_argv no_ci_env) = Inr skipped_config"
    by (metis snd_conv)
  with h1 h2 h3 t g show ?thesis by blast
qed

text \<open>
  C2. When the \<^verbatim>\<open>pr\<close> flag is false, \<^verbatim>\<open>runLighthouse\<close> is \<^verbatim>\<open>true\<close> whatever the environment
  holds, in every configuration that resolution yields.
\<close>

theorem C2_pr_false_runs:
  assumes "\<not> arg_pr a"
  shows "run_gate a env = JBool True \<and>
         (\<forall>out c. getConfig B a env = (out, Inr c) \<longrightarrow> runLighthouse c = JBool True)"
proof -
  have "run_gate a env = JBool True"
    using assms by (simp add: run_gate_def or_js_def)
  then show ?thesis
    using getConfig_returns(5) by simp
qed

theorem C2_pr_false_runs_witness:
  "\<not> arg_pr (example_argv\<lparr>arg_pr := False\<rparr>) \<and>
   run_gate (example_argv\<lparr>arg_pr := False\<rparr>) no_ci_env = JBool True \<and>
   snd (getConfig example_builtins (example_argv\<lparr>arg_pr := False\<rparr>) no_ci_env) =
     Inr (skipped_config\<lparr>runLighthouse := JBool True\<rparr>)"
proof -
  have h: "\<not> arg_pr (example_argv\<lparr>arg_pr := False\<rparr>)"
    by simp
  have g: "snd (getConfig example_builtins (example_argv\<lparr>arg_pr := False\<rparr>) no_ci_env) =
      Inr (skipped_config\<lparr>runLighthouse := JBool True\<rparr>)"
    by code_simp
  from h g C2_pr_false_runs [OF h, of no_ci_env example_builtins] show ?thesis
    by blast
qed

text \<open>
  C3. When the \<^verbatim>\<open>comment\<close> flag is false and the score is absent, or zero, or not a number,
  \<^verbatim>\<open>getConfig\<close> prints the usage and exits with code 1, and no request is made. When the
  help flag is not set and a URL is given, the line before the usage asks for a score.
\<close>

theorem C3_no_comment_needs_score:
  assumes "\<not> arg_comment a"
    and "arg_score a = Undefined \<or> Number B (arg_score a) = Inr (Finite 0) \<or>
         Number B (arg_score a) = Inr NaN"
  shows "(\<exists>pre. getConfig B a env = (pre @ [Log [S usage]], Inl 1)) \<and>
         (\<not> arg_help a \<and> truthy (first_positional a) \<longrightarrow>
            getConfig B a env =
              ([Log [S ''Please provide a --score when using --no-comment.''], Log [S usage]], Inl 1)) \<and>
         fetches (fst (main B a env net)) = [] \<and>
         snd (main B a env net) = 1"
proof -
  have "\<exists>n. Number B (arg_score a) = Inr n \<and> \<not> truthy_num n"
    using assms(2) by auto
  then obtain n where falsy: "Number B (arg_score a) = Inr n" "\<not> truthy_num n"
    by blast
  have stop: "\<exists>pre. getConfig B a env = (pre @ [Log [S usage]], Inl 1)"
    using assms(1) falsy by (simp add: getConfig_def Let_def printUsageAndExit_def)
  then obtain pre where g: "getConfig B a env = (pre @ [Log [S usage]], Inl 1)" ..
  have msg: "\<not> arg_help a \<and> truthy (first_positional a) \<longrightarrow>
      getConfig B a env =
        ([Log [S ''Please provide a --score when using --no-comment.''], Log [S usage]], Inl 1)"
    using assms(1) falsy by (simp add: getConfig_def Let_def printUsageAndExit_def)
  have "fetches (pre @ [Log [S usage]]) = []"
    using fetches_getConfig [of B a env] g by simp
  then have "fetches (fst (main B a env net)) = []" "snd (main B a env net) = 1"
    using main_usage_error [OF g, of net]
    by (simp_all add: fetches_append fetches_deprecation_warning)
  with stop msg show ?thesis by blast
qed

theorem C3_no_comment_needs_score_witness:
  "\<not> arg_comment (example_argv\<lparr>arg_comment := False\<rparr>) \<and>
   arg_score (example_argv\<lparr>arg_comment := False\<rparr>) = Undefined \<and>
   Number example_builtins (arg_score (example_argv\<lparr>arg_comment := False, arg_score := JNum (Finite 0)\<rparr>)) = Inr (Finite 0) \<and>
   Number example_builtins (arg_score (example_argv\<lparr>arg_comment := False, arg_score := JStr ''abc''\<rparr>)) = Inr NaN \<and>
   getConfig example_builtins (example_argv\<lparr>arg_comment := False\<rparr>) travis_pr_env =
     ([Log [S ''Please provide a --score when using --no-comment.''], Log [S usage]], Inl 1) \<and>
   getConfig example_builtins (example_argv\<lparr>arg_comment := False, arg_score := JNum (Finite 0)\<rparr>) travis_pr_env =
     ([Log [S ''Please provide a --score when using --no-comment.''], Log [S usage]], Inl 1) \<and>
   getConfig example_builtins (example_argv\<lparr>arg_comment := False, arg_score := JStr ''abc''\<rparr>) travis_pr_env =
     ([Log [S ''Please provide a --score when using --no-comment.''], Log [S usage]], Inl 1) \<and>
   fetches (fst (main example_builtins (example_argv\<lparr>arg_comment := False\<rparr>) travis_pr_env service_score)) = [] \<and>
   snd (main example_builtins (example_argv\<lparr>arg_comment := False\<rparr>) travis_pr_env service_score) = 1"
proof -
  have c1: "\<not> arg_comment (example_argv\<lparr>arg_comment := False\<rparr>)"
    and c2: "\<not> arg_comment (example_argv\<lparr>arg_comment := False, arg_score := JNum (Finite 0)\<rparr>)"
    and c3: "\<not> arg_comment (example_argv\<lparr>arg_comment := False, arg_score := JStr ''abc''\<rparr>)"
    by simp_all
  have u1: "\<not> arg_help (example_argv\<lparr>arg_comment := False\<rparr>) \<and>
      truthy (first_positional (example_argv\<lparr>arg_comment := False\<rparr>))"
    and u2: "\<not> arg_help (example_argv\<lparr>arg_comment := False, arg_score := JNum (Finite 0)\<rparr>) \<and>
      truthy (first_positional (example_argv\<lparr>arg_comment := False, arg_score := JNum (Finite 0)\<rparr>))"
    and u3: "\<not> arg_help (example_argv\<lparr>arg_comment := False, arg_score := JStr ''abc''\<rparr>) \<and>
      truthy (first_positional (example_argv\<lparr>arg_comment := False, arg_score := JStr ''abc''\<rparr>))"
    by (simp_all add: example_argv_def first_positional_def)
  have s1: "arg_score (example_argv\<lparr>arg_comment := False\<rparr>) = Undefined"
    by (simp add: example_argv_def)
  have s2: "Number example_builtins
      (arg_score (example_argv\<lparr>arg_comment := False, arg_score := JNum (Finite 0)\<rparr>)) = Inr (Finite 0)"
    by simp
  have s3: "Number example_builtins
      (arg_score (example_argv\<lparr>arg_comment := False, arg_score := JStr ''abc''\<rparr>)) = Inr NaN"
    by (simp add: example_builtins_def example_text_to_number_def)
  note t1 = C3_no_comment_needs_score [OF c1 disjI1, OF s1, of example_builtins travis_pr_env service_score]
  note t2 = C3_no_comment_needs_score [OF c2 disjI2, OF disjI1, OF s2, of travis_pr_env service_score]
  note t3 = C3_no_comment_needs_score [OF c3 disjI2, OF disjI2, OF s3, of travis_pr_env service_score]
  from t1 u1 have r1: "getConfig example_builtins (example_argv\<lparr>arg_comment := False\<rparr>) travis_pr_env =
      ([Log [S ''Please provide a --score when using --no-comment.''], Log [S usage]], Inl 1)"
    and f1: "fetches (fst (main example_builtins (example_argv\<lparr>arg_comment := False\<rparr>) travis_pr_env service_score)) = []"
    and x1: "snd (main example_builtins (example_argv\<lparr>arg_comment := False\<rparr>) travis_pr_env service_score) = 1"
    by blast+
  from t2 u2 have r2: "getConfig example_builtins
      (example_argv\<lparr>arg_comment := False, arg_score := JNum (Finite 0)\<rparr>) travis_pr_env =
      ([Log [S ''Please provide a --score when using --no-comment.''], Log [S usage]], Inl 1)"
    by blast
  from t3 u3 have r3: "getConfig example_builtins
      (example_argv\<lparr>arg_comment := False, arg_score := JStr ''abc''\<rparr>) travis_pr_env =
      ([Log [S ''Please provide a --score when using --no-comment.''], Log [S usage]], Inl 1)"
    by blast
  from c1 s1 s2 s3 r1 r2 r3 f1 x1 show ?thesis
    by blast
qed

text \<open>
  C4. With no positional argument and no help flag, \<^verbatim>\<open>getConfig\<close> asks for a URL, prints
  the usage and exits with code 1, whatever the other flags and the environment are: no
  configuration is returned and no request is made.
\<close>

theorem C4_no_url_is_usage_error:
  assumes "arg_positional a = []" and "\<not> arg_help a"
  shows "getConfig B a env =
           ([Log [S ''Please provide a url to test.''], Log [S usage]], Inl 1) \<and>
         main B a env net =
           (deprecation_warning env @ [Log [S ''Please provide a url to test.''], Log [S usage]], 1) \<and>
         fetches (fst (main B a env net)) = []"
proof -
  have g: "getConfig B a env =
      ([Log [S ''Please provide a url to test.''], Log [S usage]], Inl 1)"
    using assms by (simp add: getConfig_def first_positional_def printUsageAndExit_def)
  show ?thesis
    using g main_usage_error [OF g, of net]
    by (simp add: fetches_append fetches_deprecation_warning)
qed

theorem C4_no_url_is_usage_error_witness:
  "arg_positional (wpt_argv\<lparr>arg_positional := []\<rparr>) = [] \<and>
   \<not> arg_help (wpt_argv\<lparr>arg_positional := []\<rparr>) \<and>
   getConfig example_builtins (wpt_argv\<lparr>arg_positional := []\<rparr>) travis_pr_env =
     ([Log [S ''Please provide a url to test.''], Log [S usage]], Inl 1) \<and>
   main example_builtins (wpt_argv\<lparr>arg_positional := []\<rparr>) travis_pr_env service_score =
     (deprecation_warning travis_pr_env @
      [Log [S ''Please provide a url to test.''], Log [S usage]], 1) \<and>
   fetches (fst (main example_builtins (wpt_argv\<lparr>arg_positional := []\<rparr>) travis_pr_env service_score)) = []"
proof -
  have h1: "arg_positional (wpt_argv\<lparr>arg_positional := []\<rparr>) = []"
    by simp
  have h2: "\<not> arg_help (wpt_argv\<lparr>arg_positional := []\<rparr>)"
    by (simp add: wpt_argv_def scored_argv_def example_argv_def)
  from h1 h2 C4_no_url_is_usage_error [OF h1 h2, of example_builtins travis_pr_env service_score]
  show ?thesis by blast
qed

text \<open>
  C5, as the script has it. A runner flag that is truthy and is neither \<^verbatim>\<open>chrome\<close> nor
  \<^verbatim>\<open>wpt\<close> never yields a configuration: the process exits with code 1 and no request is
  made. When the flag has a string form and the score converts to a number (or is never
  converted, the help flag or a missing URL ending the run first), the exit is that of
  \<^verbatim>\<open>printUsageAndExit\<close>, after the usage; when moreover the help, URL and score checks
  pass, the line before the usage names the flag and lists the options \<^verbatim>\<open>chrome,wpt\<close>.
  A flag that is falsy (absent, or the empty string, zero, not-a-number or \<^verbatim>\<open>false\<close>) is
  replaced by \<^verbatim>\<open>chrome\<close>.
\<close>

theorem C5_unknown_runner_is_usage_error:
  "(truthy (arg_runner a) \<and> arg_runner a \<noteq> JStr ''chrome'' \<and> arg_runner a \<noteq> JStr ''wpt'' \<longrightarrow>
      (\<forall>out c. getConfig B a env \<noteq> (out, Inr c)) \<and>
      fetches (fst (main B a env net)) = [] \<and>
      snd (main B a env net) = 1 \<and>
      (can_string (arg_runner a) \<and>
       (arg_help a \<or> \<not> truthy (first_positional a) \<or> Number B (arg_score a) = Inr n) \<longrightarrow>
         (\<exists>pre. getConfig B a env = (pre @ [Log [S usage]], Inl 1))) \<and>
      (can_string (arg_runner a) \<and> \<not> arg_help a \<and> truthy (first_positional a) \<and>
       Number B (arg_score a) = Inr n \<and> (arg_comment a \<or> truthy_num n) \<longrightarrow>
         getConfig B a env =
           ([Log [S ''Unknown runner \"'', V (arg_runner a), S ''\". Options: '', S ''chrome,wpt''],
             Log [S usage]], Inl 1))) \<and>
   (\<not> truthy (arg_runner a) \<longrightarrow>
      (\<forall>out c. getConfig B a env = (out, Inr c) \<longrightarrow> runner c = JStr ''chrome''))"
proof (intro conjI impI)
  assume bad: "truthy (arg_runner a) \<and> arg_runner a \<noteq> JStr ''chrome'' \<and> arg_runner a \<noteq> JStr ''wpt''"
  note g = getConfig_unknown_runner [of a B env, OF bad]
  show none: "\<forall>out c. getConfig B a env \<noteq> (out, Inr c)"
    unfolding g by (simp add: printUsageAndExit_def uncaught_def split: sum.splits)
  obtain out res where p: "getConfig B a env = (out, res)"
    by (cases "getConfig B a env")
  with none obtain code where "res = Inl code"
    by (cases res) auto
  with p have e: "getConfig B a env = (out, Inl 1)"
    using getConfig_exit_code [of B a env out code] by simp
  have "fetches out = []"
    using fetches_getConfig [of B a env] p by simp
  then show "fetches (fst (main B a env net)) = []" and "snd (main B a env net) = 1"
    using main_usage_error [OF e, of net]
    by (simp_all add: fetches_append fetches_deprecation_warning)
  {
    assume "can_string (arg_runner a) \<and>
      (arg_help a \<or> \<not> truthy (first_positional a) \<or> Number B (arg_score a) = Inr n)"
    then show "\<exists>pre. getConfig B a env = (pre @ [Log [S usage]], Inl 1)"
      unfolding g by (auto simp: printUsageAndExit_def)
  }
  {
    assume "can_string (arg_runner a) \<and> \<not> arg_help a \<and> truthy (first_positional a) \<and>
      Number B (arg_score a) = Inr n \<and> (arg_comment a \<or> truthy_num n)"
    then show "getConfig B a env =
        ([Log [S ''Unknown runner \"'', V (arg_runner a), S ''\". Options: '', S ''chrome,wpt''],
          Log [S usage]], Inl 1)"
      unfolding g by (auto simp: printUsageAndExit_def)
  }
next
  assume "\<not> truthy (arg_runner a)"
  then have "or_js (arg_runner a) (JStr ''chrome'') = JStr ''chrome''"
    by (simp add: or_js_def)
  then show "\<forall>out c. getConfig B a env = (out, Inr c) \<longrightarrow> runner c = JStr ''chrome''"
    using getConfig_returns(8) by simp
qed

theorem C5_unknown_runner_is_usage_error_witness:
  "truthy (JStr ''foo'') \<and> JStr ''foo'' \<noteq> JStr ''chrome'' \<and> JStr ''foo'' \<noteq> JStr ''wpt'' \<and>
   can_string (JStr ''foo'') \<and>
   Number example_builtins (arg_score (example_argv\<lparr>arg_runner := JStr ''foo''\<rparr>)) = Inr NaN \<and>
   getConfig example_builtins (example_argv\<lparr>arg_runner := JStr ''foo''\<rparr>) travis_pr_env =
     ([Log [S ''Unknown runner \"'', V (JStr ''foo''), S ''\". Options: '', S ''chrome,wpt''],
       Log [S usage]], Inl 1) \<and>
   fetches (fst (main example_builtins (example_argv\<lparr>arg_runner := JStr ''foo''\<rparr>) travis_pr_env service_score)) = [] \<and>
   snd (main example_builtins (example_argv\<lparr>arg_runner := JStr ''foo''\<rparr>) travis_pr_env service_score) = 1 \<and>
   truthy (JArr [JStr ''chrome'', JStr ''wpt'']) \<and>
   can_string (JArr [JStr ''chrome'', JStr ''wpt'']) \<and>
   getConfig example_builtins (example_argv\<lparr>arg_runner := JArr [JStr ''chrome'', JStr ''wpt'']\<rparr>) travis_pr_env =
     ([Log [S ''Unknown runner \"'', V (JArr [JStr ''chrome'', JStr ''wpt'']), S ''\". Options: '',
            S ''chrome,wpt''],
       Log [S usage]], Inl 1) \<and>
   truthy (JObj [(''x'', JNum (Finite 1))]) \<and>
   can_string (JObj [(''x'', JNum (Finite 1))]) \<and>
   getConfig example_builtins (example_argv\<lparr>arg_runner := JObj [(''x'', JNum (Finite 1))]\<rparr>) travis_pr_env =
     ([Log [S ''Unknown runner \"'', V (JObj [(''x'', JNum (Finite 1))]), S ''\". Options: '',
            S ''chrome,wpt''],
       Log [S usage]], Inl 1) \<and>
   \<not> truthy (arg_runner example_argv) \<and>
   snd (getConfig example_builtins example_argv no_ci_env) = Inr skipped_config \<and>
   runner skipped_config = JStr ''chrome''"
proof -
  have unknown: "getConfig example_builtins (example_argv\<lparr>arg_runner := r\<rparr>) travis_pr_env =
        ([Log [S ''Unknown runner \"'', V r, S ''\". Options: '', S ''chrome,wpt''],
          Log [S usage]], Inl 1) \<and>
      fetches (fst (main example_builtins (example_argv\<lparr>arg_runner := r\<rparr>) travis_pr_env service_score)) = [] \<and>
      snd (main example_builtins (example_argv\<lparr>arg_runner := r\<rparr>) travis_pr_env service_score) = 1"
    if r: "truthy r" "r \<noteq> JStr ''chrome''" "r \<noteq> JStr ''wpt''" "can_string r" for r
  proof -
    have h: "truthy (arg_runner (example_argv\<lparr>arg_runner := r\<rparr>)) \<and>
        arg_runner (example_argv\<lparr>arg_runner := r\<rparr>) \<noteq> JStr ''chrome'' \<and>
        arg_runner (example_argv\<lparr>arg_runner := r\<rparr>) \<noteq> JStr ''wpt''"
      using r by simp
    have s: "can_string (arg_runner (example_argv\<lparr>arg_runner := r\<rparr>))"
      using r by simp
    have n: "Number example_builtins (arg_score (example_argv\<lparr>arg_runner := r\<rparr>)) = Inr NaN"
      by (simp add: example_argv_def)
    have u: "\<not> arg_help (example_argv\<lparr>arg_runner := r\<rparr>) \<and>
        truthy (first_positional (example_argv\<lparr>arg_runner := r\<rparr>)) \<and>
        (arg_comment (example_argv\<lparr>arg_runner := r\<rparr>) \<or> truthy_num NaN)"
      by (simp add: example_argv_def first_positional_def)
    have v: "arg_runner (example_argv\<lparr>arg_runner := r\<rparr>) = r"
      by simp
    note t = C5_unknown_runner_is_usage_error
      [of "example_argv\<lparr>arg_runner := r\<rparr>" example_builtins travis_pr_env service_score NaN,
       THEN conjunct1, rule_format, OF h]
    from t s n u have "getConfig example_builtins (example_argv\<lparr>arg_runner := r\<rparr>) travis_pr_env =
        ([Log [S ''Unknown runner \"'', V (arg_runner (example_argv\<lparr>arg_runner := r\<rparr>)),
               S ''\". Options: '', S ''chrome,wpt''], Log [S usage]], Inl 1)"
      and "fetches (fst (main example_builtins (example_argv\<lparr>arg_runner := r\<rparr>) travis_pr_env service_score)) = []"
      and "snd (main example_builtins (example_argv\<lparr>arg_runner := r\<rparr>) travis_pr_env service_score) = 1"
      by blast+
    then show ?thesis
      unfolding v by blast
  qed
  have r1: "truthy (JStr ''foo'')" "JStr ''foo'' \<noteq> JStr ''chrome''" "JStr ''foo'' \<noteq> JStr ''wpt''"
      "can_string (JStr ''foo'')"
    and r2: "truthy (JArr [JStr ''chrome'', JStr ''wpt''])"
      "JArr [JStr ''chrome'', JStr ''wpt''] \<noteq> JStr ''chrome''"
      "JArr [JStr ''chrome'', JStr ''wpt''] \<noteq> JStr ''wpt''"
      "can_string (JArr [JStr ''chrome'', JStr ''wpt''])"
    and r3: "truthy (JObj [(''x'', JNum (Finite 1))])"
      "JObj [(''x'', JNum (Finite 1))] \<noteq> JStr ''chrome''"
      "JObj [(''x'', JNum (Finite 1))] \<noteq> JStr ''wpt''"
      "can_string (JObj [(''x'', JNum (Finite 1))])"
    by simp_all
  have n: "Number example_builtins (arg_score (example_argv\<lparr>arg_runner := JStr ''foo''\<rparr>)) = Inr NaN"
    by (simp add: example_argv_def)
  have d: "\<not> truthy (arg_runner example_argv)"
    by (simp add: example_argv_def)
  note t2 = C5_unknown_runner_is_usage_error
    [of example_argv example_builtins no_ci_env service_score NaN,
     THEN conjunct2, rule_format, OF d skipped_config_resolved]
  have g: "snd (getConfig example_builtins example_argv no_ci_env) = Inr skipped_config"
    using skipped_config_resolved by (metis snd_conv)
  from r1 r2 r3 n unknown [OF r1] unknown [OF r2] unknown [OF r3] d g t2 show ?thesis
    by blast
qed

theorem C5_runner_counterexample:
  "arg_runner (example_argv\<lparr>arg_runner := JStr ''''\<rparr>) = JStr '''' \<and>
   JStr '''' \<noteq> JStr ''chrome'' \<and>
   JStr '''' \<noteq> JStr ''wpt'' \<and>
   snd (getConfig example_builtins (example_argv\<lparr>arg_runner := JStr ''''\<rparr>) no_ci_env) =
     Inr skipped_config \<and>
   runner skipped_config = JStr ''chrome'' \<and>
   arg_runner (example_argv\<lparr>arg_runner := runner_without_string\<rparr>) = runner_without_string \<and>
   runner_without_string \<noteq> JStr ''chrome'' \<and>
   runner_without_string \<noteq> JStr ''wpt'' \<and>
   getConfig example_builtins (example_argv\<lparr>arg_runner := runner_without_string\<rparr>) no_ci_env =
     ([Uncaught (TypeError ''Cannot convert object to primitive value'')], Inl 1)"
  by code_simp

text \<open>
  C6. Once \<^verbatim>\<open>getConfig\<close> has returned a configuration: when it says to run and \<^verbatim>\<open>fetch\<close>
  rejects, or the body of the response is not JSON, the script prints the failure after
  its one request and exits with code 1; when the response is parsed and reported, the
  exit code is 0; when the configuration says not to run, the exit code is 0.
\<close>

theorem C6_exit_codes:
  assumes "getConfig B a env = (out, Inr c)"
  shows "(truthy (runLighthouse c) \<and> net (build_request env c) = Rejected msg \<longrightarrow>
            main B a env net =
              (deprecation_warning env @ out @
               [Fetch (build_request env c), Log [S ''Lighthouse CI failed'', E (FetchError msg)]], 1)) \<and>
         (truthy (runLighthouse c) \<and> net (build_request env c) = Unparseable msg \<longrightarrow>
            main B a env net =
              (deprecation_warning env @ out @
               [Fetch (build_request env c), Log [S ''Lighthouse CI failed'', E (FetchError msg)]], 1)) \<and>
         (truthy (runLighthouse c) \<and> net (build_request env c) = Parsed json \<and>
          report c json = Inr line \<longrightarrow>
            main B a env net =
              (deprecation_warning env @ out @ [Fetch (build_request env c), line], 0)) \<and>
         (\<not> truthy (runLighthouse c) \<longrightarrow> snd (main B a env net) = 0)"
  using main_dispatched [OF assms, of net] main_skipped [OF assms, of net]
  by (auto simp: run_rejected run_unparseable run_reported)

theorem C6_exit_codes_witness:
  "snd (getConfig example_builtins scored_argv travis_pr_env) = Inr example_config \<and>
   truthy (runLighthouse example_config) \<and>
   service_down (build_request travis_pr_env example_config) = Rejected ''ECONNREFUSED'' \<and>
   main example_builtins scored_argv travis_pr_env service_down =
     (deprecation_warning travis_pr_env @ fst (getConfig example_builtins scored_argv travis_pr_env) @
      [Fetch (build_request travis_pr_env example_config),
       Log [S ''Lighthouse CI failed'', E (FetchError ''ECONNREFUSED'')]], 1) \<and>
   service_html (build_request travis_pr_env example_config) = Unparseable ''Unexpected token <'' \<and>
   main example_builtins scored_argv travis_pr_env service_html =
     (deprecation_warning travis_pr_env @ fst (getConfig example_builtins scored_argv travis_pr_env) @
      [Fetch (build_request travis_pr_env example_config),
       Log [S ''Lighthouse CI failed'', E (FetchError ''Unexpected token <'')]], 1) \<and>
   service_score (build_request travis_pr_env example_config) =
     Parsed (JObj [(''score'', JNum (Finite 50))]) \<and>
   report example_config (JObj [(''score'', JNum (Finite 50))]) =
     Inr (Log [S ''Lighthouse CI score:'', V (JNum (Finite 50))]) \<and>
   main example_builtins scored_argv travis_pr_env service_score =
     (deprecation_warning travis_pr_env @ fst (getConfig example_builtins scored_argv travis_pr_env) @
      [Fetch (build_request travis_pr_env example_config),
       Log [S ''Lighthouse CI score:'', V (JNum (Finite 50))]], 0) \<and>
   snd (getConfig example_builtins example_argv no_ci_env) = Inr skipped_config \<and>
   \<not> truthy (runLighthouse skipped_config) \<and>
   snd (main example_builtins example_argv no_ci_env service_score) = 0"
proof -
  have g1: "snd (getConfig example_builtins scored_argv travis_pr_env) = Inr example_config"
    using example_config_resolved by (metis snd_conv)
  have g2: "snd (getConfig example_builtins example_argv no_ci_env) = Inr skipped_config"
    using skipped_config_resolved by (metis snd_conv)
  have on: "truthy (runLighthouse example_config)"
    and off: "\<not> truthy (runLighthouse skipped_config)"
    by (simp_all add: example_config_def skipped_config_def)
  have n1: "service_down (build_request travis_pr_env example_config) = Rejected ''ECONNREFUSED''"
    and n2: "service_html (build_request travis_pr_env example_config) = Unparseable ''Unexpected token <''"
    and n3: "service_score (build_request travis_pr_env example_config) =
      Parsed (JObj [(''score'', JNum (Finite 50))])"
    by (simp_all add: service_down_def service_html_def service_score_def)
  have rep: "report example_config (JObj [(''score'', JNum (Finite 50))]) =
      Inr (Log [S ''Lighthouse CI score:'', V (JNum (Finite 50))])"
    by code_simp
  note t1 = C6_exit_codes [OF example_config_resolved, where net = service_down, THEN conjunct1,
      rule_format, OF conjI, OF on n1]
  note t2 = C6_exit_codes [OF example_config_resolved, where net = service_html,
      THEN conjunct2, THEN conjunct1, rule_format, OF conjI, OF on n2]
  note t3 = C6_exit_codes [OF example_config_resolved, where net = service_score,
      THEN conjunct2, THEN conjunct2, THEN conjunct1, rule_format, OF conjI, OF on conjI, OF n3 rep]
  note t4 = C6_exit_codes [OF skipped_config_resolved, where net = service_score,
      THEN conjunct2, THEN conjunct2, THEN conjunct2, rule_format, OF off]
  from g1 g2 on off n1 n2 n3 rep t1 t2 t3 t4 show ?thesis
    by blast
qed

text \<open>
  C7. For a configuration with the chrome runner that is dispatched, a parsed response
  that is an object with a numeric \<^verbatim>\<open>score\<close> makes the script print that score after its
  request and exit with code 0, whatever the score and whatever \<^verbatim>\<open>minPassScore\<close> are: the
  two are never compared.
\<close>

theorem C7_score_reported_not_compared:
  assumes "getConfig B a env = (out, Inr c)"
    and "truthy (runLighthouse c)"
    and "runner c = JStr ''chrome''"
    and "net (build_request env c) = Parsed (JObj kvs)"
    and "map_of kvs ''score'' = Some (JNum n)"
  shows "main B a env net =
           (deprecation_warning env @ out @
            [Fetch (build_request env c), Log [S ''Lighthouse CI score:'', V (JNum n)]], 0)"
proof -
  have "report c (JObj kvs) = Inr (Log [S ''Lighthouse CI score:'', V (JNum n)])"
    using assms(3,5) by (simp add: report_def RUNNERS_wpt_eq)
  then show ?thesis
    using main_dispatched [OF assms(1,2), of net] run_reported [where net = net, OF assms(4)]
    by simp
qed

theorem C7_score_reported_not_compared_witness:
  "snd (getConfig example_builtins scored_argv travis_pr_env) = Inr example_config \<and>
   truthy (runLighthouse example_config) \<and>
   runner example_config = JStr ''chrome'' \<and>
   minPassScore example_config = Finite 93 \<and>
   service_score (build_request travis_pr_env example_config) =
     Parsed (JObj [(''score'', JNum (Finite 50))]) \<and>
   map_of [(''score'', JNum (Finite 50))] ''score'' = Some (JNum (Finite 50)) \<and>
   main example_builtins scored_argv travis_pr_env service_score =
     (deprecation_warning travis_pr_env @ fst (getConfig example_builtins scored_argv travis_pr_env) @
      [Fetch (build_request travis_pr_env example_config),
       Log [S ''Lighthouse CI score:'', V (JNum (Finite 50))]], 0)"
proof -
  have g: "snd (getConfig example_builtins scored_argv travis_pr_env) = Inr example_config"
    using example_config_resolved by (metis snd_conv)
  have on: "truthy (runLighthouse example_config)"
    and kind: "runner example_config = JStr ''chrome''"
    and least: "minPassScore example_config = Finite 93"
    by (simp_all add: example_config_def)
  have n: "service_score (build_request travis_pr_env example_config) =
      Parsed (JObj [(''score'', JNum (Finite 50))])"
    by (simp add: service_score_def)
  have s: "map_of [(''score'', JNum (Finite 50))] ''score'' = Some (JNum (Finite 50))"
    by simp
  note t = C7_score_reported_not_compared
    [where net = service_score, OF example_config_resolved on kind n s]
  from g on kind least n s t show ?thesis
    by blast
qed

text \<open>
  C8. A configuration that is dispatched causes exactly one request, a POST whose
  \<^verbatim>\<open>X-API-KEY\<close> header is the API key (\<^verbatim>\<open>LIGHTHOUSE_API_KEY\<close>, else \<^verbatim>\<open>API_KEY\<close>). Its
  runner is \<^verbatim>\<open>wpt\<close> or \<^verbatim>\<open>chrome\<close>. For \<^verbatim>\<open>wpt\<close> the address is the host followed by
  \<^verbatim>\<open>/run_on_wpt\<close> and the body is the serialised configuration: \<^verbatim>\<open>testUrl\<close>,
  \<^verbatim>\<open>runLighthouse\<close>, \<^verbatim>\<open>addComment\<close>, \<^verbatim>\<open>minPassScore\<close>, \<^verbatim>\<open>runner\<close>, \<^verbatim>\<open>pr\<close> and \<^verbatim>\<open>repo\<close>, in
  this order and nothing else. For \<^verbatim>\<open>chrome\<close> the address is the host followed by
  \<^verbatim>\<open>/run_on_chrome\<close> and the body is the same object with \<^verbatim>\<open>format: "json"\<close> in front.
  Each property holds what \<^verbatim>\<open>getConfig\<close> resolved from the flags and the environment.
\<close>

theorem C8_request_by_runner:
  assumes "getConfig B a env = (out, Inr c)"
    and "truthy (runLighthouse c)"
  shows "fetches (fst (main B a env net)) = [build_request env c] \<and>
         req_method (build_request env c) = ''POST'' \<and>
         map_of (headers (build_request env c)) ''X-API-KEY'' =
           Some (or_js (process_env env ''LIGHTHOUSE_API_KEY'') (process_env env ''API_KEY'')) \<and>
         (runner c = JStr ''wpt'' \<or> runner c = JStr ''chrome'') \<and>
         (runner c = JStr ''wpt'' \<longrightarrow>
            url (build_request env c) = CI_HOST env @ ''/run_on_wpt'' \<and>
            req_body (build_request env c) =
              JSON_stringify (JObj
                [(''testUrl'', testUrl c),
                 (''runLighthouse'', runLighthouse c),
                 (''addComment'', JBool (addComment c)),
                 (''minPassScore'', JNum (minPassScore c)),
                 (''runner'', JStr ''wpt''),
                 (''pr'', JObj [(''number'', number (pr c)), (''sha'', sha (pr c))]),
                 (''repo'', JObj [(''owner'', owner (repo c)), (''name'', name (repo c))])])) \<and>
         (runner c = JStr ''chrome'' \<longrightarrow>
            url (build_request env c) = CI_HOST env @ ''/run_on_chrome'' \<and>
            req_body (build_request env c) =
              JSON_stringify (JObj
                [(''format'', JStr ''json''),
                 (''testUrl'', testUrl c),
                 (''runLighthouse'', runLighthouse c),
                 (''addComment'', JBool (addComment c)),
                 (''minPassScore'', JNum (minPassScore c)),
                 (''runner'', JStr ''chrome''),
                 (''pr'', JObj [(''number'', number (pr c)), (''sha'', sha (pr c))]),
                 (''repo'', JObj [(''owner'', owner (repo c)), (''name'', name (repo c))])])) \<and>
         testUrl c = first_positional a \<and>
         runLighthouse c = run_gate a env \<and>
         addComment c = arg_comment a \<and>
         Number B (arg_score a) = Inr (minPassScore c) \<and>
         runner c = or_js (arg_runner a) (JStr ''chrome'') \<and>
         pr c = getPrInfo B env \<and>
         repo c = \<lparr>owner = slug_part (repoSlug env) 0, name = slug_part (repoSlug env) 1\<rparr>"
proof -
  have "fetches out = []"
    using fetches_getConfig [of B a env] assms(1) by simp
  then have one: "fetches (fst (main B a env net)) = [build_request env c]"
    using main_dispatched [OF assms, of net]
    by (simp add: fetches_append fetches_deprecation_warning fetches_run)
  have kind: "runner c = JStr ''wpt'' \<or> runner c = JStr ''chrome''"
    using getConfig_returns(9) [OF assms(1)] by blast
  have post: "req_method (build_request env c) = ''POST''"
    and key: "map_of (headers (build_request env c)) ''X-API-KEY'' =
      Some (or_js (process_env env ''LIGHTHOUSE_API_KEY'') (process_env env ''API_KEY''))"
    by (simp_all add: build_request_def API_KEY_def split: prod.splits)
  have wpt: "runner c = JStr ''wpt'' \<longrightarrow>
      url (build_request env c) = CI_HOST env @ ''/run_on_wpt'' \<and>
      req_body (build_request env c) =
        JSON_stringify (JObj
          [(''testUrl'', testUrl c),
           (''runLighthouse'', runLighthouse c),
           (''addComment'', JBool (addComment c)),
           (''minPassScore'', JNum (minPassScore c)),
           (''runner'', JStr ''wpt''),
           (''pr'', JObj [(''number'', number (pr c)), (''sha'', sha (pr c))]),
           (''repo'', JObj [(''owner'', owner (repo c)), (''name'', name (repo c))])])"
    by (simp add: build_request_def RUNNERS_wpt_eq config_object_def)
  have chrome: "runner c = JStr ''chrome'' \<longrightarrow>
      url (build_request env c) = CI_HOST env @ ''/run_on_chrome'' \<and>
      req_body (build_request env c) =
        JSON_stringify (JObj
          [(''format'', JStr ''json''),
           (''testUrl'', testUrl c),
           (''runLighthouse'', runLighthouse c),
           (''addComment'', JBool (addComment c)),
           (''minPassScore'', JNum (minPassScore c)),
           (''runner'', JStr ''chrome''),
           (''pr'', JObj [(''number'', number (pr c)), (''sha'', sha (pr c))]),
           (''repo'', JObj [(''owner'', owner (repo c)), (''name'', name (repo c))])])"
    by (simp add: build_request_def RUNNERS_wpt_eq config_object_def)
  note fields = getConfig_returns(4-8,10,11) [OF assms(1)]
  from one post key kind wpt chrome fields show ?thesis by blast
qed

theorem C8_request_by_runner_witness:
  "snd (getConfig example_builtins wpt_argv travis_pr_env) = Inr wpt_config \<and>
   truthy (runLighthouse wpt_config) \<and>
   runner wpt_config = JStr ''wpt'' \<and>
   fetches (fst (main example_builtins wpt_argv travis_pr_env service_down)) =
     [build_request travis_pr_env wpt_config] \<and>
   build_request travis_pr_env wpt_config =
     \<lparr>url = ''https://lighthouse-ci.appspot.com/run_on_wpt'',
      req_method = ''POST'',
      req_body = JSON_stringify (JObj
        [(''testUrl'', JStr ''https://example.com''),
         (''runLighthouse'', JBool True),
         (''addComment'', JBool True),
         (''minPassScore'', JNum (Finite 93)),
         (''runner'', JStr ''wpt''),
         (''pr'', JObj [(''number'', JNum (Finite 7)), (''sha'', JStr ''abc'')]),
         (''repo'', JObj [(''owner'', JStr ''owner''), (''name'', JStr ''repo'')])]),
      headers = [(''Content-Type'', JStr ''application/json''), (''X-API-KEY'', JStr ''secret'')]\<rparr> \<and>
   snd (getConfig example_builtins scored_argv travis_pr_env) = Inr example_config \<and>
   truthy (runLighthouse example_config) \<and>
   runner example_config = JStr ''chrome'' \<and>
   fetches (fst (main example_builtins scored_argv travis_pr_env service_down)) =
     [build_request travis_pr_env example_config] \<and>
   build_request travis_pr_env example_config =
     \<lparr>url = ''https://lighthouse-ci.appspot.com/run_on_chrome'',
      req_method = ''POST'',
      req_body = JSON_stringify (JObj
        [(''format'', JStr ''json''),
         (''testUrl'', JStr ''https://example.com''),
         (''runLighthouse'', JBool True),
         (''addComment'', JBool True),
         (''minPassScore'', JNum (Finite 93)),
         (''runner'', JStr ''chrome''),
         (''pr'', JObj [(''number'', JNum (Finite 7)), (''sha'', JStr ''abc'')]),
         (''repo'', JObj [(''owner'', JStr ''owner''), (''name'', JStr ''repo'')])]),
      headers = [(''Content-Type'', JStr ''application/json''), (''X-API-KEY'', JStr ''secret'')]\<rparr>"
proof -
  have g1: "snd (getConfig example_builtins wpt_argv travis_pr_env) = Inr wpt_config"
    using wpt_config_resolved by (metis snd_conv)
  have g2: "snd (getConfig example_builtins scored_argv travis_pr_env) = Inr example_config"
    using example_config_resolved by (metis snd_conv)
  have on1: "truthy (runLighthouse wpt_config)"
    and k1: "runner wpt_config = JStr ''wpt''"
    and on2: "truthy (runLighthouse example_config)"
    and k2: "runner example_config = JStr ''chrome''"
    by (simp_all add: wpt_config_def example_config_def)
  have host: "CI_HOST travis_pr_env = ''https://lighthouse-ci.appspot.com''"
    and key: "or_js (process_env travis_pr_env ''LIGHTHOUSE_API_KEY'')
        (process_env travis_pr_env ''API_KEY'') = JStr ''secret''"
    by code_simp+
  have hs: "headers (build_request travis_pr_env c) =
      [(''Content-Type'', JStr ''application/json''), (''X-API-KEY'', API_KEY travis_pr_env)]" for c
    by (simp add: build_request_def split: prod.splits)
  note t1 = C8_request_by_runner [OF wpt_config_resolved on1, of service_down]
  note t2 = C8_request_by_runner [OF example_config_resolved on2, of service_down]
  from t1 k1 have w: "fetches (fst (main example_builtins wpt_argv travis_pr_env service_down)) =
        [build_request travis_pr_env wpt_config]"
    and wu: "url (build_request travis_pr_env wpt_config) = CI_HOST travis_pr_env @ ''/run_on_wpt''"
    and wm: "req_method (build_request travis_pr_env wpt_config) = ''POST''"
    and wk: "map_of (headers (build_request travis_pr_env wpt_config)) ''X-API-KEY'' =
        Some (or_js (process_env travis_pr_env ''LIGHTHOUSE_API_KEY'')
               (process_env travis_pr_env ''API_KEY''))"
    and wb: "req_body (build_request travis_pr_env wpt_config) =
        JSON_stringify (JObj
          [(''testUrl'', testUrl wpt_config),
           (''runLighthouse'', runLighthouse wpt_config),
           (''addComment'', JBool (addComment wpt_config)),
           (''minPassScore'', JNum (minPassScore wpt_config)),
           (''runner'', JStr ''wpt''),
           (''pr'', JObj [(''number'', number (pr wpt_config)), (''sha'', sha (pr wpt_config))]),
           (''repo'', JObj [(''owner'', owner (repo wpt_config)), (''name'', name (repo wpt_config))])])"
    by blast+
  from t2 k2 have c: "fetches (fst (main example_builtins scored_argv travis_pr_env service_down)) =
        [build_request travis_pr_env example_config]"
    and cu: "url (build_request travis_pr_env example_config) = CI_HOST travis_pr_env @ ''/run_on_chrome''"
    and cm: "req_method (build_request travis_pr_env example_config) = ''POST''"
    and ck: "map_of (headers (build_request travis_pr_env example_config)) ''X-API-KEY'' =
        Some (or_js (process_env travis_pr_env ''LIGHTHOUSE_API_KEY'')
               (process_env travis_pr_env ''API_KEY''))"
    and cb: "req_body (build_request travis_pr_env example_config) =
        JSON_stringify (JObj
          [(''format'', JStr ''json''),
           (''testUrl'', testUrl example_config),
           (''runLighthouse'', runLighthouse example_config),
           (''addComment'', JBool (addComment example_config)),
           (''minPassScore'', JNum (minPassScore example_config)),
           (''runner'', JStr ''chrome''),
           (''pr'', JObj [(''number'', number (pr example_config)), (''sha'', sha (pr example_config))]),
           (''repo'', JObj [(''owner'', owner (repo example_config)), (''name'', name (repo example_config))])])"
    by blast+
  have wkey: "API_KEY travis_pr_env = JStr ''secret''"
    using wk hs [of wpt_config] key by simp
  have wreq: "build_request travis_pr_env wpt_config =
      \<lparr>url = ''https://lighthouse-ci.appspot.com/run_on_wpt'',
       req_method = ''POST'',
       req_body = JSON_stringify (JObj
         [(''testUrl'', JStr ''https://example.com''),
          (''runLighthouse'', JBool True),
          (''addComment'', JBool True),
          (''minPassScore'', JNum (Finite 93)),
          (''runner'', JStr ''wpt''),
          (''pr'', JObj [(''number'', JNum (Finite 7)), (''sha'', JStr ''abc'')]),
          (''repo'', JObj [(''owner'', JStr ''owner''), (''name'', JStr ''repo'')])]),
       headers = [(''Content-Type'', JStr ''application/json''), (''X-API-KEY'', JStr ''secret'')]\<rparr>"
    using wu wm wb hs [of wpt_config] wkey
    by (simp add: host wpt_config_def example_config_def)
  have creq: "build_request travis_pr_env example_config =
      \<lparr>url = ''https://lighthouse-ci.appspot.com/run_on_chrome'',
       req_method = ''POST'',
       req_body = JSON_stringify (JObj
         [(''format'', JStr ''json''),
          (''testUrl'', JStr ''https://example.com''),
          (''runLighthouse'', JBool True),
          (''addComment'', JBool True),
          (''minPassScore'', JNum (Finite 93)),
          (''runner'', JStr ''chrome''),
          (''pr'', JObj [(''number'', JNum (Finite 7)), (''sha'', JStr ''abc'')]),
          (''repo'', JObj [(''owner'', JStr ''owner''), (''name'', JStr ''repo'')])]),
       headers = [(''Content-Type'', JStr ''application/json''), (''X-API-KEY'', JStr ''secret'')]\<rparr>"
    using cu cm cb hs [of example_config] wkey
    by (simp add: host example_config_def)
  from g1 on1 k1 w wreq g2 on2 k2 c creq show ?thesis
    by blast
qed

text \<open>
  C9. \<^verbatim>\<open>getPrInfo\<close> looks at Travis first and at CircleCI second, and the second
  overwrites the first: when \<^verbatim>\<open>TRAVIS\<close> and \<^verbatim>\<open>CIRCLECI\<close> are both set, the number and the sha
  are those of the CircleCI variables; the Travis variables are used only when
  \<^verbatim>\<open>CIRCLECI\<close> is not set.
\<close>

theorem C9_circle_overrides_travis:
  "(truthy (process_env env ''TRAVIS'') \<and> truthy (process_env env ''CIRCLECI'') \<longrightarrow>
      getPrInfo B env =
        \<lparr>number = JNum (parseInt B (env ''CIRCLE_PR_NUMBER'')),
         sha = process_env env ''CIRCLE_SHA1''\<rparr>) \<and>
   (truthy (process_env env ''TRAVIS'') \<and> \<not> truthy (process_env env ''CIRCLECI'') \<longrightarrow>
      getPrInfo B env =
        \<lparr>number = JNum (parseInt B (env ''TRAVIS_PULL_REQUEST'')),
         sha = process_env env ''TRAVIS_PULL_REQUEST_SHA''\<rparr>)"
  by (simp add: getPrInfo_def)

theorem C9_circle_overrides_travis_witness:
  "truthy (process_env both_ci_env ''TRAVIS'') \<and>
   truthy (process_env both_ci_env ''CIRCLECI'') \<and>
   both_ci_env ''TRAVIS_PULL_REQUEST'' = Some ''7'' \<and>
   both_ci_env ''TRAVIS_PULL_REQUEST_SHA'' = Some ''abc'' \<and>
   getPrInfo example_builtins both_ci_env = \<lparr>number = JNum (Finite 12), sha = JStr ''def''\<rparr> \<and>
   truthy (process_env travis_pr_env ''TRAVIS'') \<and>
   \<not> truthy (process_env travis_pr_env ''CIRCLECI'') \<and>
   getPrInfo example_builtins travis_pr_env = \<lparr>number = JNum (Finite 7), sha = JStr ''abc''\<rparr>"
proof -
  have b: "truthy (process_env both_ci_env ''TRAVIS'') \<and> truthy (process_env both_ci_env ''CIRCLECI'')"
    by code_simp
  have v: "both_ci_env ''TRAVIS_PULL_REQUEST'' = Some ''7''"
      "both_ci_env ''TRAVIS_PULL_REQUEST_SHA'' = Some ''abc''"
    by (simp_all add: both_ci_env_def)
  have o: "truthy (process_env travis_pr_env ''TRAVIS'') \<and>
      \<not> truthy (process_env travis_pr_env ''CIRCLECI'')"
    by code_simp
  have e1: "\<lparr>number = JNum (parseInt example_builtins (both_ci_env ''CIRCLE_PR_NUMBER'')),
      sha = process_env both_ci_env ''CIRCLE_SHA1''\<rparr> =
      \<lparr>number = JNum (Finite 12), sha = JStr ''def''\<rparr>"
    by code_simp
  have e2: "\<lparr>number = JNum (parseInt example_builtins (travis_pr_env ''TRAVIS_PULL_REQUEST'')),
      sha = process_env travis_pr_env ''TRAVIS_PULL_REQUEST_SHA''\<rparr> =
      \<lparr>number = JNum (Finite 7), sha = JStr ''abc''\<rparr>"
    by code_simp
  note t1 = C9_circle_overrides_travis [of both_ci_env example_builtins, THEN conjunct1,
      rule_format, OF b, unfolded e1]
  note t2 = C9_circle_overrides_travis [of travis_pr_env example_builtins, THEN conjunct2,
      rule_format, OF o, unfolded e2]
  from b v o t1 t2 show ?thesis
    by blast
qed

text \<open>
  C10, as the script has it. For a configuration that is dispatched and a response that
  is parsed: with the chrome runner, every parsed value other than \<^verbatim>\<open>null\<close> gives exit
  code 0, and an object with no \<^verbatim>\<open>score\<close> is reported with the score \<^verbatim>\<open>undefined\<close>; with
  the wpt runner, an object with no \<^verbatim>\<open>data\<close> makes reading \<^verbatim>\<open>target_url\<close> throw, which is
  printed as a failure, and the exit code is 1.
\<close>

theorem C10_parsed_response_without_score:
  assumes "getConfig B a env = (out, Inr c)"
    and "truthy (runLighthouse c)"
    and "net (build_request env c) = Parsed json"
  shows "(runner c = JStr ''chrome'' \<and> json \<noteq> Null \<and> json \<noteq> Undefined \<longrightarrow>
            snd (main B a env net) = 0) \<and>
         (runner c = JStr ''chrome'' \<and> json = JObj kvs \<and> map_of kvs ''score'' = None \<longrightarrow>
            main B a env net =
              (deprecation_warning env @ out @
               [Fetch (build_request env c), Log [S ''Lighthouse CI score:'', V Undefined]], 0)) \<and>
         (runner c = JStr ''wpt'' \<and> json = JObj kvs \<and> map_of kvs ''data'' = None \<longrightarrow>
            main B a env net =
              (deprecation_warning env @ out @
               [Fetch (build_request env c),
                Log [S ''Lighthouse CI failed'', E (TypeError ''target_url'')]], 1))"
proof (intro conjI impI)
  note m = main_dispatched [OF assms(1,2), of net]
  {
    assume "runner c = JStr ''chrome'' \<and> json \<noteq> Null \<and> json \<noteq> Undefined"
    then obtain v where "report c json = Inr (Log [S ''Lighthouse CI score:'', V v])"
      using report_chrome [of c json] by blast
    then show "snd (main B a env net) = 0"
      using m run_reported [where net = net, OF assms(3)] by simp
  }
  {
    assume "runner c = JStr ''chrome'' \<and> json = JObj kvs \<and> map_of kvs ''score'' = None"
    then have "report c json = Inr (Log [S ''Lighthouse CI score:'', V Undefined])"
      by (simp add: report_def RUNNERS_wpt_eq)
    then show "main B a env net =
        (deprecation_warning env @ out @
         [Fetch (build_request env c), Log [S ''Lighthouse CI score:'', V Undefined]], 0)"
      using m run_reported [where net = net, OF assms(3)] by simp
  }
  {
    assume "runner c = JStr ''wpt'' \<and> json = JObj kvs \<and> map_of kvs ''data'' = None"
    then have "report c json = Inl (TypeError ''target_url'')"
      by (simp add: report_def RUNNERS_wpt_eq)
    then show "main B a env net =
        (deprecation_warning env @ out @
         [Fetch (build_request env c),
          Log [S ''Lighthouse CI failed'', E (TypeError ''target_url'')]], 1)"
      using m run_threw [where net = net, OF assms(3)] by simp
  }
qed

theorem C10_parsed_response_without_score_witness:
  "snd (getConfig example_builtins scored_argv travis_pr_env) = Inr example_config \<and>
   truthy (runLighthouse example_config) \<and>
   runner example_config = JStr ''chrome'' \<and>
   service_empty (build_request travis_pr_env example_config) = Parsed (JObj []) \<and>
   map_of ([] :: (string \<times> jsval) list) ''score'' = None \<and>
   main example_builtins scored_argv travis_pr_env service_empty =
     (deprecation_warning travis_pr_env @ fst (getConfig example_builtins scored_argv travis_pr_env) @
      [Fetch (build_request travis_pr_env example_config),
       Log [S ''Lighthouse CI score:'', V Undefined]], 0) \<and>
   snd (main example_builtins scored_argv travis_pr_env service_empty) = 0 \<and>
   snd (getConfig example_builtins wpt_argv travis_pr_env) = Inr wpt_config \<and>
   truthy (runLighthouse wpt_config) \<and>
   runner wpt_config = JStr ''wpt'' \<and>
   service_empty (build_request travis_pr_env wpt_config) = Parsed (JObj []) \<and>
   map_of ([] :: (string \<times> jsval) list) ''data'' = None \<and>
   main example_builtins wpt_argv travis_pr_env service_empty =
     (deprecation_warning travis_pr_env @ fst (getConfig example_builtins wpt_argv travis_pr_env) @
      [Fetch (build_request travis_pr_env wpt_config),
       Log [S ''Lighthouse CI failed'', E (TypeError ''target_url'')]], 1)"
proof -
  have g1: "snd (getConfig example_builtins scored_argv travis_pr_env) = Inr example_config"
    using example_config_resolved by (metis snd_conv)
  have g2: "snd (getConfig example_builtins wpt_argv travis_pr_env) = Inr wpt_config"
    using wpt_config_resolved by (metis snd_conv)
  have on1: "truthy (runLighthouse example_config)"
    and k1: "runner example_config = JStr ''chrome''"
    and on2: "truthy (runLighthouse wpt_config)"
    and k2: "runner wpt_config = JStr ''wpt''"
    by (simp_all add: wpt_config_def example_config_def)
  have n: "service_empty (build_request travis_pr_env c) = Parsed (JObj [])" for c
    by (simp add: service_empty_def)
  have e: "map_of ([] :: (string \<times> jsval) list) k = None" for k
    by simp
  have obj: "JObj [] \<noteq> Null \<and> JObj [] \<noteq> Undefined"
    by simp
  note t1 = C10_parsed_response_without_score
    [where net = service_empty and kvs = "[]", OF example_config_resolved on1 n]
  note t2 = C10_parsed_response_without_score
    [where net = service_empty and kvs = "[]", OF wpt_config_resolved on2 n]
  from t1 k1 obj e have r1: "snd (main example_builtins scored_argv travis_pr_env service_empty) = 0"
    and r2: "main example_builtins scored_argv travis_pr_env service_empty =
      (deprecation_warning travis_pr_env @ fst (getConfig example_builtins scored_argv travis_pr_env) @
       [Fetch (build_request travis_pr_env example_config),
        Log [S ''Lighthouse CI score:'', V Undefined]], 0)"
    by blast+
  from t2 k2 e have r3: "main example_builtins wpt_argv travis_pr_env service_empty =
      (deprecation_warning travis_pr_env @ fst (getConfig example_builtins wpt_argv travis_pr_env) @
       [Fetch (build_request travis_pr_env wpt_config),
        Log [S ''Lighthouse CI failed'', E (TypeError ''target_url'')]], 1)"
    by blast
  from g1 on1 k1 n e r1 r2 g2 on2 k2 r3 show ?thesis
    by blast
qed

theorem C10_null_response_counterexample:
  "snd (getConfig example_builtins scored_argv travis_pr_env) = Inr example_config \<and>
   truthy (runLighthouse example_config) \<and>
   runner example_config = JStr ''chrome'' \<and>
   service_null (build_request travis_pr_env example_config) = Parsed Null \<and>
   main example_builtins scored_argv travis_pr_env service_null =
     (deprecation_warning travis_pr_env @ fst (getConfig example_builtins scored_argv travis_pr_env) @
      [Fetch (build_request travis_pr_env example_config),
       Log [S ''Lighthouse CI failed'', E (TypeError ''score'')]], 1)"
  by code_simp


end
